theory Spec2Isabelle
  imports Complex_Main "HOL-Library.AList" "HOL-Library.Sublist" "HOL-Library.Word"
begin

section \<open>Python values and exceptions\<close>

text \<open>
  The module \<^verbatim>\<open>task_info.py\<close> is glue between four libraries: thrift
  (\<^verbatim>\<open>thrift_deserialize\<close>), the standard \<^verbatim>\<open>json\<close> module, pystachio
  (\<^verbatim>\<open>Ref\<close>, \<^verbatim>\<open>json_loads\<close>, \<^verbatim>\<open>Map.get\<close>) and Aurora's own
  configuration helpers (\<^verbatim>\<open>resolve_thermos_config\<close>, \<^verbatim>\<open>task_instance_from_job\<close>,
  \<^verbatim>\<open>PortResolver\<close>). None of them is part of the module, so each call of a
  library function is a parameter of the model. A call can return or raise, so
  every such parameter returns \<open>pyexn + 'a\<close>, with \<open>Inl\<close> for the exception raised.
\<close>

datatype pyexn =
    EOFError
  | TException
  | TypeError
  | ValueError
  | RuntimeError
      \<comment> \<open>with \<^verbatim>\<open>RecursionError\<close>, its subclass\<close>
  | OtherException

text \<open>
  What a function of the module ends with when it does not return. The module raises
  \<^verbatim>\<open>ValueError\<close> at four places, told apart by their message; the constructor
  keeps the arguments of the message's format string. \<open>Uncaught\<close> is an exception of
  a library call that no \<^verbatim>\<open>except\<close> clause of the module catches.
\<close>

datatype 'ref error =
    Could_not_deserialize_task pyexn
      \<comment> \<open>\<^verbatim>\<open>ValueError('Could not deserialize task! %s' % e)\<close>\<close>
  | Task_did_not_have_a_thermos_config
      \<comment> \<open>\<^verbatim>\<open>ValueError('Task did not have a thermos config!')\<close>\<close>
  | Could_not_deserialize_thermos_config pyexn
      \<comment> \<open>\<^verbatim>\<open>ValueError('Could not deserialize thermos config: %s' % e)\<close>\<close>
  | Unexpected_unbound_refs "'ref list"
      \<comment> \<open>\<^verbatim>\<open>ValueError('Unexpected unbound refs: %s' % ' '.join(map(str, refs)))\<close>\<close>
  | Uncaught pyexn

text \<open>
  A Python \<^verbatim>\<open>float\<close>: a number, an infinity or \<^verbatim>\<open>nan\<close>. \<^verbatim>\<open>json.loads\<close> returns
  the last three for the texts \<^verbatim>\<open>Infinity\<close>, \<^verbatim>\<open>-Infinity\<close> and \<^verbatim>\<open>NaN\<close>, which
  it accepts although they are not JSON.
\<close>

datatype pyfloat = Finite real | Infinity | Minus_Infinity | NaN

text \<open>The values \<^verbatim>\<open>json.loads\<close> can return.\<close>

datatype pyjson =
    PyNone
  | PyBool bool
  | PyInt int
  | PyFloat pyfloat
  | PyString string
  | PyList "pyjson list"
  | PyDict "(string \<times> pyjson) list"

text \<open>
  Python's \<^verbatim>\<open>key in obj\<close> for a string \<open>key\<close>: key membership on a dict, element
  membership on a list, substring test on a string, and \<^verbatim>\<open>TypeError\<close> on a value
  that is not iterable (\<^verbatim>\<open>None\<close>, booleans, numbers).
\<close>

fun py_in :: "string \<Rightarrow> pyjson \<Rightarrow> pyexn + bool" where
  "py_in key (PyDict items) = Inr (key \<in> set (map fst items))"
| "py_in key (PyList elems) = Inr (PyString key \<in> set elems)"
| "py_in key (PyString s) = Inr (sublist key s)"
| "py_in key PyNone = Inl TypeError"
| "py_in key (PyBool b) = Inl TypeError"
| "py_in key (PyInt i) = Inl TypeError"
| "py_in key (PyFloat x) = Inl TypeError"

section \<open>Assignment decoder\<close>

text \<open>The Mesos \<^verbatim>\<open>TaskInfo\<close> protocol buffer; only its \<^verbatim>\<open>data\<close> field is read.\<close>

record mesos_task_info =
  data :: "8 word list"

text \<open>
  The thrift struct \<^verbatim>\<open>AssignedTask\<close>, by the two attributes the module reads. An
  attribute is \<^verbatim>\<open>None\<close> until thrift reads its field from the input.
\<close>

record 'task assigned_task =
  task :: "'task option"
  instanceId :: "int option"

text \<open>
  \<^verbatim>\<open>assigned_task_from_mesos_task(task)\<close>. The first argument stands for
  \<^verbatim>\<open>lambda data: thrift_deserialize(AssignedTask(), data)\<close>. The \<^verbatim>\<open>except\<close> clause
  catches \<^verbatim>\<open>EOFError\<close> and \<^verbatim>\<open>TException\<close> (with its subclasses); any other exception
  leaves the function as it is.
\<close>

definition assigned_task_from_mesos_task ::
  "(8 word list \<Rightarrow> pyexn + 'task assigned_task) \<Rightarrow> mesos_task_info \<Rightarrow>
     'ref error + 'task assigned_task" where
  "assigned_task_from_mesos_task thrift_deserialize = (\<lambda>task.
     (case thrift_deserialize (data task) of
        Inl e \<Rightarrow>
          if e = EOFError \<or> e = TException then Inl (Could_not_deserialize_task e)
          else Inl (Uncaught e)
      | Inr assigned_task \<Rightarrow> Inr assigned_task))"

section \<open>Task configuration resolver\<close>

text \<open>
  The library functions \<^verbatim>\<open>mesos_task_instance_from_assigned_task\<close> calls, by their
  names in the source. \<^verbatim>\<open>resolve_thermos_config\<close> returns a string or \<^verbatim>\<open>None\<close>;
  \<^verbatim>\<open>subscope\<close> is the truth value of what \<^verbatim>\<open>Ref.subscope\<close> returns; \<^verbatim>\<open>==\<close> on
  refs is equality of the values of type \<open>'ref\<close>.
\<close>

record ('task, 'job, 'mti, 'ref) collaborators =
  resolve_thermos_config :: "'task option \<Rightarrow> pyexn + string option"
  json_loads :: "string \<Rightarrow> pyexn + pyjson"
  MesosTaskInstance_json_loads :: "string \<Rightarrow> pyexn + 'mti"
  MesosJob_json_loads :: "string \<Rightarrow> pyexn + 'job"
  task_instance_from_job :: "'job \<Rightarrow> int option \<Rightarrow> pyexn + ('mti \<times> 'ref list)"
  from_address :: "string \<Rightarrow> 'ref"
  subscope :: "'ref \<Rightarrow> 'ref \<Rightarrow> bool"

text \<open>
  The loop \<^verbatim>\<open>for ref in refs\<close>. The second argument is the whole list \<^verbatim>\<open>refs\<close>,
  which the \<^verbatim>\<open>raise\<close> formats; the third is what is left to iterate. \<open>None\<close> means
  that the loop ended without raising.
\<close>

fun check_refs ::
  "('task, 'job, 'mti, 'ref) collaborators \<Rightarrow> 'ref list \<Rightarrow> 'ref list \<Rightarrow> 'ref error option" where
  "check_refs lib refs [] = None"
| "check_refs lib refs (ref # rest) =
     (if ref = from_address lib ''thermos.task_id'' then check_refs lib refs rest
      else if subscope lib (from_address lib ''thermos.ports'') ref then check_refs lib refs rest
      else if ref = from_address lib ''thermos.user'' then check_refs lib refs rest
      else Some (Unexpected_unbound_refs refs))"

text \<open>
  \<^verbatim>\<open>mesos_task_instance_from_assigned_task(assigned_task)\<close>. Python's
  \<^verbatim>\<open>not thermos_task\<close> is true of \<^verbatim>\<open>None\<close> and of the empty string.
\<close>

definition mesos_task_instance_from_assigned_task ::
  "('task, 'job, 'mti, 'ref) collaborators \<Rightarrow> 'task assigned_task \<Rightarrow> 'ref error + 'mti" where
  "mesos_task_instance_from_assigned_task lib assigned_task =
     (case resolve_thermos_config lib (task assigned_task) of
        Inl e \<Rightarrow> Inl (Uncaught e)
      | Inr None \<Rightarrow> Inl Task_did_not_have_a_thermos_config
      | Inr (Some thermos_task) \<Rightarrow>
          if thermos_task = [] then Inl Task_did_not_have_a_thermos_config
          else
            (case json_loads lib thermos_task of
               Inl e \<Rightarrow>
                 if e = TypeError \<or> e = ValueError
                 then Inl (Could_not_deserialize_thermos_config e)
                 else Inl (Uncaught e)
             | Inr json_blob \<Rightarrow>
                 (case py_in ''instance'' json_blob of
                    Inl e \<Rightarrow> Inl (Uncaught e)
                  | Inr True \<Rightarrow>
                      (case MesosTaskInstance_json_loads lib thermos_task of
                         Inl e \<Rightarrow> Inl (Uncaught e)
                       | Inr mti \<Rightarrow> Inr mti)
                  | Inr False \<Rightarrow>
                      (case MesosJob_json_loads lib thermos_task of
                         Inl e \<Rightarrow> Inl (Uncaught e)
                       | Inr job \<Rightarrow>
                           (case task_instance_from_job lib job (instanceId assigned_task) of
                              Inl e \<Rightarrow> Inl (Uncaught e)
                            | Inr (mti, refs) \<Rightarrow>
                                (case check_refs lib refs refs of
                                   Some err \<Rightarrow> Inl err
                                 | None \<Rightarrow> Inr mti))))))"

text \<open>
  The three rules of the comment in the loop, as one predicate: the ref is
  \<^verbatim>\<open>{{thermos.task_id}}\<close>, a subscope of \<^verbatim>\<open>{{thermos.ports}}\<close>, or
  \<^verbatim>\<open>{{thermos.user}}\<close>.
\<close>

definition whitelisted :: "('task, 'job, 'mti, 'ref) collaborators \<Rightarrow> 'ref \<Rightarrow> bool" where
  "whitelisted lib ref \<longleftrightarrow>
     ref = from_address lib ''thermos.task_id''
     \<or> subscope lib (from_address lib ''thermos.ports'') ref
     \<or> ref = from_address lib ''thermos.user''"

section \<open>Port binder\<close>

text \<open>
  A value of a port map: an \<^verbatim>\<open>int\<close>, or a string that names another port.
  \<^verbatim>\<open>isinstance(port, int)\<close> tells them apart; it does not look at the sign.
\<close>

datatype port = Port_int int | Port_str string

fun isinstance_int :: "port \<Rightarrow> bool" where
  "isinstance_int (Port_int n) = True"
| "isinstance_int (Port_str s) = False"

text \<open>
  A Python dict from port names to port values, as the list of its items in insertion
  order. \<^verbatim>\<open>d[k] = v\<close> is \<open>AList.update k v d\<close>: it replaces the value of a key that
  is there and appends a new key. \<^verbatim>\<open>d.update(other)\<close> assigns the items of
  \<open>other\<close> one after the other.
\<close>

type_synonym portmap = "(string \<times> port) list"

definition dict_update :: "portmap \<Rightarrow> portmap \<Rightarrow> portmap" where
  "dict_update d other = fold (\<lambda>(k, v). AList.update k v) other d"

text \<open>
  \<^verbatim>\<open>task_portmap.update(portmap)\<close> changes an object in place, so dicts live in a
  store: a list of dicts, where the address of a dict is its index. A new dict is
  stored at the end. The arguments of \<^verbatim>\<open>resolve_ports\<close> are references, that is
  addresses into the store.
\<close>

type_synonym addr = nat
type_synonym heap = "portmap list"

definition new_dict :: "portmap \<Rightarrow> heap \<Rightarrow> addr \<times> heap" where
  "new_dict d heap = (length heap, heap @ [d])"

text \<open>
  The pystachio structs \<^verbatim>\<open>Announcer\<close> and \<^verbatim>\<open>MesosTaskInstance\<close>, by what
  \<^verbatim>\<open>resolve_ports\<close> reads of them. \<open>announcer_portmap\<close> is the address of the items
  of the \<^verbatim>\<open>Map\<close> returned by \<^verbatim>\<open>portmap()\<close>; \<^verbatim>\<open>has_announce()\<close> is \<open>announce \<noteq> None\<close>.
\<close>

record announcer =
  announcer_portmap :: addr

record mesos_task_instance =
  announce :: "announcer option"

text \<open>
  pystachio's \<^verbatim>\<open>Map.get()\<close> builds a new dict from the items of the container at
  every call.
\<close>

definition Map_get :: "addr \<Rightarrow> heap \<Rightarrow> addr \<times> heap" where
  "Map_get m heap = new_dict (heap ! m) heap"

text \<open>
  The loop over \<^verbatim>\<open>task_portmap.items()\<close> that calls \<^verbatim>\<open>log.warning\<close>: the list of
  the arguments \<^verbatim>\<open>(name, port)\<close> of the messages logged, in order.
\<close>

fun log_unmapped :: "portmap \<Rightarrow> (string \<times> port) list" where
  "log_unmapped [] = []"
| "log_unmapped ((name, port) # items) =
     (if \<not> isinstance_int port then (name, port) # log_unmapped items
      else log_unmapped items)"

text \<open>
  \<^verbatim>\<open>resolve_ports(mesos_task, portmap)\<close>. The first argument stands for
  \<^verbatim>\<open>PortResolver.resolve\<close>, which is given the value of the merged dict and returns a
  new dict or raises. The result is what the function returns or raises, with the
  warnings logged, and the store it leaves.
\<close>

definition resolve_ports ::
  "(portmap \<Rightarrow> pyexn + portmap) \<Rightarrow> mesos_task_instance \<Rightarrow> addr \<Rightarrow> heap \<Rightarrow>
     (pyexn + (string \<times> port) list \<times> portmap) \<times> heap" where
  "resolve_ports PortResolver_resolve mesos_task portmap heap =
     (let (task_portmap, heap) =
            (case announce mesos_task of
               Some a \<Rightarrow> Map_get (announcer_portmap a) heap
             | None \<Rightarrow> new_dict [] heap);
          heap = heap[task_portmap := dict_update (heap ! task_portmap) (heap ! portmap)]
      in case PortResolver_resolve (heap ! task_portmap) of
           Inl e \<Rightarrow> (Inl e, heap)
         | Inr task_portmap \<Rightarrow>
             (Inr (log_unmapped task_portmap,
                   filter (\<lambda>(name, port). isinstance_int port) task_portmap),
              heap))"

text \<open>
  The dict \<^verbatim>\<open>resolve_ports\<close> starts from: the items of the announcer's port map, or
  nothing when the task has no announcer.
\<close>

definition self_declared :: "mesos_task_instance \<Rightarrow> heap \<Rightarrow> portmap" where
  "self_declared mesos_task heap =
     (case announce mesos_task of Some a \<Rightarrow> heap ! announcer_portmap a | None \<Rightarrow> [])"

text \<open>
  Modelled from the spec: \<^verbatim>\<open>PortResolver.resolve\<close> of
  \<^verbatim>\<open>twitter.aurora.config.port_resolver\<close> is not among the sources. By section 4.3,
  step 3, of the specification, an entry whose value is the name of another entry takes
  that entry's value, following chains until a number is reached or the alias dangles
  or cycles, and the call returns a mapping in which aliases are substituted as far as
  possible. A chain without a cycle has at most as many steps as the mapping has
  entries, which is the fuel given to \<open>chase\<close>.
\<close>

fun chase :: "portmap \<Rightarrow> nat \<Rightarrow> port \<Rightarrow> port" where
  "chase m n (Port_int i) = Port_int i"
| "chase m 0 (Port_str s) = Port_str s"
| "chase m (Suc n) (Port_str s) =
     (case map_of m s of None \<Rightarrow> Port_str s | Some v \<Rightarrow> chase m n v)"

text \<open>
  Modelled from the spec: \<^verbatim>\<open>PortResolver.resolve\<close>, as the specification's
  \<^verbatim>\<open>resolve_aliases(mapping) -> mapping\<close>. It substitutes every entry and always
  returns a mapping: the specification names no failure of it.
\<close>

definition resolve_aliases :: "portmap \<Rightarrow> pyexn + portmap" where
  "resolve_aliases m = Inr (map (\<lambda>(name, port). (name, chase m (length m) port)) m)"

section \<open>A concrete instance of the libraries\<close>

text \<open>
  Modelled from the spec: pystachio's \<^verbatim>\<open>Ref\<close> is not among the sources. By section 3
  of the specification two refs are equal when their addresses are, and a ref is a
  subscope of another when it is nested under it as a path prefix. Here a ref is the
  list of the names of its dotted address, and a subscope is a proper extension.
\<close>

type_synonym ref = "string list"

fun split_components :: "string \<Rightarrow> string \<Rightarrow> string list" where
  "split_components name [] = [name]"
| "split_components name (c # cs) =
     (if c = CHR ''.'' then name # split_components [] cs
      else split_components (name @ [c]) cs)"

text \<open>
  Modelled from the spec: \<^verbatim>\<open>Ref.from_address\<close>, for an address made of names and
  dots.
\<close>

definition Ref_from_address :: "string \<Rightarrow> ref" where
  "Ref_from_address address = split_components [] address"

text \<open>
  Modelled from the spec: the truth value of \<^verbatim>\<open>Ref.subscope(ref1, ref2)\<close>, that is
  whether \<open>ref2\<close> is nested under \<open>ref1\<close>.
\<close>

definition Ref_subscope :: "ref \<Rightarrow> ref \<Rightarrow> bool" where
  "Ref_subscope ref1 ref2 \<longleftrightarrow> strict_prefix ref1 ref2"

text \<open>
  The text \<^verbatim>\<open>{"instance": {}}\<close>; the character \<open>0x22\<close> is the double quote.
\<close>

definition instance_blob :: string where
  "instance_blob = ''{'' @ [CHR 0x22] @ ''instance'' @ [CHR 0x22] @ '': {}}''"

text \<open>
  Stand-ins for the other libraries, to run the resolver on examples: the task carries
  its blob, the schema decoders return the text they are given, and the instantiation
  engine returns the refs it is set up with. The stand-in for \<^verbatim>\<open>json.loads\<close> answers
  as the standard parser does on the texts of the examples: \<^verbatim>\<open>{"instance": {}}\<close> and
  \<^verbatim>\<open>{}\<close> are dicts, \<^verbatim>\<open>5\<close> is an int, \<^verbatim>\<open>NaN\<close> is accepted as a float, 1200
  opening brackets exceed the recursion limit of the interpreter
  (\<^verbatim>\<open>RecursionError\<close>), and \<^verbatim>\<open>{not json\<close> is rejected with \<^verbatim>\<open>ValueError\<close>, as is
  any text the stand-in does not know.
\<close>

definition example_json_loads :: "string \<Rightarrow> pyexn + pyjson" where
  "example_json_loads s =
     (if s = instance_blob then Inr (PyDict [(''instance'', PyDict [])])
      else if s = ''{}'' then Inr (PyDict [])
      else if s = ''5'' then Inr (PyInt 5)
      else if s = ''NaN'' then Inr (PyFloat NaN)
      else if s = replicate 1200 (CHR ''['') then Inl RuntimeError
      else Inl ValueError)"

definition example_lib :: "ref list \<Rightarrow> (string, string, string, ref) collaborators" where
  "example_lib refs =
     \<lparr> resolve_thermos_config = (\<lambda>task. Inr task),
       json_loads = example_json_loads,
       MesosTaskInstance_json_loads = (\<lambda>s. Inr s),
       MesosJob_json_loads = (\<lambda>s. Inr s),
       task_instance_from_job = (\<lambda>job instance. Inr (job, refs)),
       from_address = Ref_from_address,
       subscope = Ref_subscope \<rparr>"

text \<open>
  The part of thrift's binary protocol that does not depend on the schema, as
  \<^verbatim>\<open>thrift_deserialize(AssignedTask(), data)\<close> runs it. A struct is a sequence of
  fields, each led by a type byte and a field id of two bytes, and ended by the type
  byte 0 (\<^verbatim>\<open>STOP\<close>); reading past the end of the input raises \<^verbatim>\<open>EOFError\<close>. So the
  empty input and an input cut inside the first field header raise \<^verbatim>\<open>EOFError\<close>,
  and an input that starts with \<^verbatim>\<open>STOP\<close> gives the struct with no attribute set,
  whatever follows. The reading of the first field and what comes after it depends on
  the schema and is the argument \<open>read_fields\<close>.
\<close>

fun thrift_read_struct ::
  "(8 word list \<Rightarrow> pyexn + 'task assigned_task) \<Rightarrow> 8 word list \<Rightarrow> pyexn + 'task assigned_task"
  where
  "thrift_read_struct read_fields [] = Inl EOFError"
| "thrift_read_struct read_fields (ftype # rest) =
     (if ftype = 0 then Inr \<lparr>task = None, instanceId = None\<rparr>
      else if length rest < 2 then Inl EOFError
      else read_fields (ftype # rest))"

text \<open>
  A stand-in for the schema-dependent reading. The examples below stop at \<^verbatim>\<open>STOP\<close>
  or inside the first field header, so they never reach it.
\<close>

definition unread_fields :: "8 word list \<Rightarrow> pyexn + string assigned_task" where
  "unread_fields bytes = Inl OtherException"

text \<open>
  The words of the specification for a port value that is kept: a concrete non-negative
  integer.
\<close>

fun concrete_non_negative_integer :: "port \<Rightarrow> bool" where
  "concrete_non_negative_integer (Port_int n) = (0 \<le> n)"
| "concrete_non_negative_integer (Port_str s) = False"

text \<open>
  The store and the task of the specification's first example of port binding: the
  announcer declares \<^verbatim>\<open>{http: "aliased_to_https", https: 443}\<close> (address 0) and the
  scheduler allocates \<^verbatim>\<open>{http: 8080}\<close> (address 1).
\<close>

definition example_heap :: heap where
  "example_heap =
     [[(''http'', Port_str ''aliased_to_https''), (''https'', Port_int 443)],
      [(''http'', Port_int 8080)]]"

definition example_task :: mesos_task_instance where
  "example_task = \<lparr>announce = Some \<lparr>announcer_portmap = 0\<rparr>\<rparr>"

section \<open>Properties of the decoder and of the resolver\<close>

lemma check_refs_None:
  "check_refs lib refs rest = None \<longleftrightarrow> (\<forall>ref \<in> set rest. whitelisted lib ref)"
  by (induction rest) (auto simp: whitelisted_def)

lemma check_refs_Some:
  "check_refs lib refs rest = Some err \<Longrightarrow> err = Unexpected_unbound_refs refs"
  by (induction rest) (auto split: if_splits)

lemma replicate_neq_Cons:
  "x \<noteq> c \<Longrightarrow> replicate n c \<noteq> x # xs"
  "x \<noteq> c \<Longrightarrow> x # xs \<noteq> replicate n c"
  by (cases n; auto)+

lemma example_whitelisted:
  "whitelisted (example_lib refs) [''thermos'', ''task_id'']"
  "whitelisted (example_lib refs) [''thermos'', ''ports'', ''http'']"
  "whitelisted (example_lib refs) [''thermos'', ''user'']"
  "\<not> whitelisted (example_lib refs) [''foo'', ''bar'']"
  by (simp_all add: whitelisted_def example_lib_def Ref_from_address_def Ref_subscope_def)

text \<open>
  Claim C9, as amended. Decoding fails with the error of the decoder
  (\<^verbatim>\<open>Could not deserialize task\<close>) exactly when the thrift deserializer raises
  \<^verbatim>\<open>EOFError\<close> (premature end of input) or \<^verbatim>\<open>TException\<close> (protocol error), and then
  there is no record; an exception of another class leaves the decoder unchanged; and
  decoding returns a record exactly when the deserializer returns it, populated or not.
  On the level of bytes, the empty input and an input cut inside the first field header
  fail with the error of the decoder, whatever the schema.
\<close>

theorem decode_fails_iff_thrift_signals:
  "(assigned_task_from_mesos_task thrift_deserialize t
      = (Inl (Could_not_deserialize_task e) :: 'ref error + 'task assigned_task)
      \<longleftrightarrow> thrift_deserialize (data t) = Inl e \<and> (e = EOFError \<or> e = TException))
   \<and> (assigned_task_from_mesos_task thrift_deserialize t
      = (Inl (Uncaught e) :: 'ref error + 'task assigned_task)
      \<longleftrightarrow> thrift_deserialize (data t) = Inl e \<and> e \<noteq> EOFError \<and> e \<noteq> TException)
   \<and> (assigned_task_from_mesos_task thrift_deserialize t
      = (Inr assigned_task :: 'ref error + 'task assigned_task)
      \<longleftrightarrow> thrift_deserialize (data t) = Inr assigned_task)
   \<and> (data t = [] \<or> (\<exists>ftype rest. data t = ftype # rest \<and> ftype \<noteq> 0 \<and> length rest < 2) \<longrightarrow>
        assigned_task_from_mesos_task (thrift_read_struct read_fields) t
          = (Inl (Could_not_deserialize_task EOFError) :: 'ref error + 'task assigned_task))"
proof -
  have "assigned_task_from_mesos_task thrift_deserialize t
      = (Inl (Could_not_deserialize_task e) :: 'ref error + 'task assigned_task)
      \<longleftrightarrow> thrift_deserialize (data t) = Inl e \<and> (e = EOFError \<or> e = TException)"
    by (auto simp: assigned_task_from_mesos_task_def split: sum.splits if_splits)
  moreover have "assigned_task_from_mesos_task thrift_deserialize t
      = (Inl (Uncaught e) :: 'ref error + 'task assigned_task)
      \<longleftrightarrow> thrift_deserialize (data t) = Inl e \<and> e \<noteq> EOFError \<and> e \<noteq> TException"
    by (auto simp: assigned_task_from_mesos_task_def split: sum.splits if_splits)
  moreover have "assigned_task_from_mesos_task thrift_deserialize t
      = (Inr assigned_task :: 'ref error + 'task assigned_task)
      \<longleftrightarrow> thrift_deserialize (data t) = Inr assigned_task"
    by (auto simp: assigned_task_from_mesos_task_def split: sum.splits if_splits)
  moreover have "data t = [] \<or> (\<exists>ftype rest. data t = ftype # rest \<and> ftype \<noteq> 0 \<and> length rest < 2)
      \<longrightarrow> assigned_task_from_mesos_task (thrift_read_struct read_fields) t
            = (Inl (Could_not_deserialize_task EOFError) :: 'ref error + 'task assigned_task)"
    by (auto simp: assigned_task_from_mesos_task_def)
  ultimately show ?thesis
    by blast
qed

theorem decode_fails_iff_thrift_signals_witness:
  "assigned_task_from_mesos_task (thrift_read_struct unread_fields) \<lparr>data = []\<rparr>
     = (Inl (Could_not_deserialize_task EOFError) :: ref error + string assigned_task)
   \<and> assigned_task_from_mesos_task (thrift_read_struct unread_fields) \<lparr>data = [3, 7]\<rparr>
     = (Inl (Could_not_deserialize_task EOFError) :: ref error + string assigned_task)"
  using decode_fails_iff_thrift_signals [where 'ref = ref and t = "\<lparr>data = []\<rparr>"
      and read_fields = unread_fields and thrift_deserialize = "thrift_read_struct unread_fields"
      and e = EOFError and assigned_task = "\<lparr>task = None, instanceId = None\<rparr>"]
    decode_fails_iff_thrift_signals [where 'ref = ref and t = "\<lparr>data = [3, 7]\<rparr>"
      and read_fields = unread_fields and thrift_deserialize = "thrift_read_struct unread_fields"
      and e = EOFError and assigned_task = "\<lparr>task = None, instanceId = None\<rparr>"]
  by simp

text \<open>
  Against claim C9 as stated: the two bytes \<^verbatim>\<open>00 07\<close> hold no field of the schema and
  a stray byte after \<^verbatim>\<open>STOP\<close>, yet decoding does not fail: it returns a record with no
  attribute set.
\<close>

theorem decode_returns_unpopulated_record:
  "assigned_task_from_mesos_task (thrift_read_struct unread_fields) \<lparr>data = [0, 7]\<rparr>
     = (Inr \<lparr>task = None, instanceId = None\<rparr> :: ref error + string assigned_task)"
  by (simp add: assigned_task_from_mesos_task_def)

text \<open>
  Claim C7. When the extraction of the template yields \<^verbatim>\<open>None\<close> or the empty string,
  resolution fails with the error for a missing configuration
  (\<^verbatim>\<open>Task did not have a thermos config!\<close>) and returns nothing. This holds whatever the
  JSON parser, the schema decoders and the instantiation engine would do: none of them
  is consulted.
\<close>

theorem resolve_missing_config:
  assumes "resolve_thermos_config lib (task assigned_task) = Inr None
           \<or> resolve_thermos_config lib (task assigned_task) = Inr (Some [])"
  shows "mesos_task_instance_from_assigned_task lib assigned_task
         = Inl Task_did_not_have_a_thermos_config"
  using assms by (auto simp: mesos_task_instance_from_assigned_task_def)

theorem resolve_missing_config_witness:
  "mesos_task_instance_from_assigned_task (example_lib []) \<lparr>task = None, instanceId = Some 0\<rparr>
     = Inl Task_did_not_have_a_thermos_config
   \<and> mesos_task_instance_from_assigned_task (example_lib []) \<lparr>task = Some [], instanceId = Some 0\<rparr>
     = Inl Task_did_not_have_a_thermos_config"
  using resolve_missing_config [of "example_lib []" "\<lparr>task = None, instanceId = Some 0\<rparr>"]
    resolve_missing_config [of "example_lib []" "\<lparr>task = Some [], instanceId = Some 0\<rparr>"]
  by (simp add: example_lib_def)




text \<open>
  Claim C3. When the parsed JSON contains \<^verbatim>\<open>instance\<close>, resolution is the decoding of
  the blob as a \<^verbatim>\<open>MesosTaskInstance\<close> and nothing else: the result is what that decoder
  returns (or the exception it raises), whatever the structure contains, and it stays
  the same when the job decoder, the instantiation engine and the ref operations are
  replaced by any others, so neither instantiation nor ref validation takes part.
\<close>

theorem resolve_instance_bypasses_engine:
  assumes "resolve_thermos_config lib (task assigned_task) = Inr (Some thermos_task)"
    and "thermos_task \<noteq> []"
    and "json_loads lib thermos_task = Inr json_blob"
    and "py_in ''instance'' json_blob = Inr True"
  shows "mesos_task_instance_from_assigned_task
           (lib\<lparr>MesosJob_json_loads := decode_job, task_instance_from_job := engine,
                from_address := addr, subscope := sub\<rparr>) assigned_task
         = (case MesosTaskInstance_json_loads lib thermos_task of
              Inl e \<Rightarrow> Inl (Uncaught e) | Inr mti \<Rightarrow> Inr mti)"
  using assms by (simp add: mesos_task_instance_from_assigned_task_def)

theorem resolve_instance_bypasses_engine_witness:
  "mesos_task_instance_from_assigned_task (example_lib [[''foo'', ''bar'']])
     \<lparr>task = Some instance_blob, instanceId = Some 0\<rparr>
   = Inr instance_blob"
  using resolve_instance_bypasses_engine [where lib = "example_lib []"
      and assigned_task = "\<lparr>task = Some instance_blob, instanceId = Some 0\<rparr>"
      and thermos_task = "instance_blob"
      and json_blob = "PyDict [(''instance'', PyDict [])]"
      and decode_job = "\<lambda>s. Inr s"
      and engine = "\<lambda>job instance. Inr (job, [[''foo'', ''bar'']])"
      and addr = Ref_from_address and sub = Ref_subscope]
  by (simp add: example_lib_def example_json_loads_def instance_blob_def replicate_neq_Cons)

text \<open>
  Claim C1. For a job template (the parsed JSON does not contain \<^verbatim>\<open>instance\<close>) that
  the job decoder accepts and the engine instantiates, leaving the refs \<open>refs\<close> unbound:
  resolution returns the instantiated configuration if and only if every ref of \<open>refs\<close>
  is \<^verbatim>\<open>thermos.task_id\<close>, a subscope of \<^verbatim>\<open>thermos.ports\<close>, or \<^verbatim>\<open>thermos.user\<close>; and if
  some ref is none of these, resolution fails with the error for unbound refs
  (\<^verbatim>\<open>Unexpected unbound refs\<close>).
\<close>

theorem resolve_job_succeeds_iff_refs_whitelisted:
  assumes "resolve_thermos_config lib (task assigned_task) = Inr (Some thermos_task)"
    and "thermos_task \<noteq> []"
    and "json_loads lib thermos_task = Inr json_blob"
    and "py_in ''instance'' json_blob = Inr False"
    and "MesosJob_json_loads lib thermos_task = Inr job"
    and "task_instance_from_job lib job (instanceId assigned_task) = Inr (mti, refs)"
  shows "(mesos_task_instance_from_assigned_task lib assigned_task = Inr mti
            \<longleftrightarrow> (\<forall>ref \<in> set refs. whitelisted lib ref))
         \<and> ((\<exists>result. mesos_task_instance_from_assigned_task lib assigned_task = Inr result)
            \<longleftrightarrow> (\<forall>ref \<in> set refs. whitelisted lib ref))
         \<and> ((\<exists>ref \<in> set refs. \<not> whitelisted lib ref) \<longrightarrow>
            (\<exists>reported. mesos_task_instance_from_assigned_task lib assigned_task
               = Inl (Unexpected_unbound_refs reported)))"
proof (cases "check_refs lib refs refs")
  case None
  with assms show ?thesis
    using check_refs_None [of lib refs refs]
    by (simp add: mesos_task_instance_from_assigned_task_def)
next
  case (Some err)
  with assms show ?thesis
    using check_refs_None [of lib refs refs] check_refs_Some [of lib refs refs err]
    by (simp add: mesos_task_instance_from_assigned_task_def)
qed

theorem resolve_job_succeeds_iff_refs_whitelisted_witness:
  "mesos_task_instance_from_assigned_task
     (example_lib [[''thermos'', ''task_id''], [''thermos'', ''ports'', ''http''],
                   [''thermos'', ''user'']])
     \<lparr>task = Some ''{}'', instanceId = Some 0\<rparr> = Inr ''{}''
   \<and> (\<exists>reported. mesos_task_instance_from_assigned_task
     (example_lib [[''thermos'', ''task_id''], [''thermos'', ''ports'', ''http''],
                   [''thermos'', ''user''], [''foo'', ''bar'']])
     \<lparr>task = Some ''{}'', instanceId = Some 0\<rparr> = Inl (Unexpected_unbound_refs reported))"
  using resolve_job_succeeds_iff_refs_whitelisted [of
      "example_lib [[''thermos'', ''task_id''], [''thermos'', ''ports'', ''http''],
                   [''thermos'', ''user'']]"
      "\<lparr>task = Some ''{}'', instanceId = Some 0\<rparr>" "''{}''" "PyDict []" "''{}''" "''{}''"
      "[[''thermos'', ''task_id''], [''thermos'', ''ports'', ''http''], [''thermos'', ''user'']]"]
    resolve_job_succeeds_iff_refs_whitelisted [of
      "example_lib [[''thermos'', ''task_id''], [''thermos'', ''ports'', ''http''],
                   [''thermos'', ''user''], [''foo'', ''bar'']]"
      "\<lparr>task = Some ''{}'', instanceId = Some 0\<rparr>" "''{}''" "PyDict []" "''{}''" "''{}''"
      "[[''thermos'', ''task_id''], [''thermos'', ''ports'', ''http''], [''thermos'', ''user''],
        [''foo'', ''bar'']]"]
    example_whitelisted
  by (simp add: example_lib_def example_json_loads_def instance_blob_def replicate_neq_Cons)

text \<open>
  Claim C2. The error for unbound refs is meant to name the offending refs only. The
  source formats the whole list \<^verbatim>\<open>refs\<close> instead: with \<^verbatim>\<open>thermos.task_id\<close> and
  \<^verbatim>\<open>foo.bar\<close> left unbound, the error lists both, although \<^verbatim>\<open>thermos.task_id\<close> is
  whitelisted.
\<close>

theorem unbound_refs_error_lists_whitelisted_refs:
  "mesos_task_instance_from_assigned_task
     (example_lib [[''thermos'', ''task_id''], [''foo'', ''bar'']])
     \<lparr>task = Some ''{}'', instanceId = Some 0\<rparr>
   = Inl (Unexpected_unbound_refs [[''thermos'', ''task_id''], [''foo'', ''bar'']])
   \<and> whitelisted (example_lib [[''thermos'', ''task_id''], [''foo'', ''bar'']])
        [''thermos'', ''task_id'']"
  by (simp add: mesos_task_instance_from_assigned_task_def example_lib_def
        example_json_loads_def instance_blob_def whitelisted_def Ref_from_address_def
        Ref_subscope_def replicate_neq_Cons)

section \<open>Properties of the port binder\<close>

text \<open>\<^verbatim>\<open>d.update(other)\<close> on the level of lookups: the items of \<open>other\<close> win.\<close>

lemma map_of_dict_update:
  "distinct (map fst other) \<Longrightarrow> map_of (dict_update d other) = map_of d ++ map_of other"
proof (induction other arbitrary: d)
  case Nil
  then show ?case by (simp add: dict_update_def)
next
  case (Cons item other)
  obtain k v where item: "item = (k, v)" by (cases item)
  from Cons.prems item have k: "k \<notin> dom (map_of other)" and d: "distinct (map fst other)"
    by (auto simp: dom_map_of_conv_image_fst)
  have "map_of (dict_update d (item # other)) = map_of (dict_update (AList.update k v d) other)"
    by (simp add: dict_update_def item)
  also have "\<dots> = (map_of d)(k \<mapsto> v) ++ map_of other"
    by (simp only: Cons.IH [OF d] update_conv')
  also have "\<dots> = map_of d ++ map_of (item # other)"
    using k by (auto simp: item map_add_def fun_eq_iff split: option.splits)
  finally show ?case .
qed

lemma log_unmapped_filter:
  "log_unmapped m = filter (\<lambda>(name, port). \<not> isinstance_int port) m"
  by (induction m rule: log_unmapped.induct) simp_all

text \<open>What \<^verbatim>\<open>resolve_ports\<close> returns, and the store it leaves.\<close>

lemma fst_resolve_ports:
  assumes "portmap < length heap"
  shows "fst (resolve_ports R t portmap heap) =
           (case R (dict_update (self_declared t heap) (heap ! portmap)) of
              Inl e \<Rightarrow> Inl e
            | Inr m \<Rightarrow> Inr (log_unmapped m, filter (\<lambda>(name, port). isinstance_int port) m))"
  using assms
  by (simp add: resolve_ports_def self_declared_def Map_get_def new_dict_def nth_append Let_def
           split: option.splits sum.splits)

lemma snd_resolve_ports:
  "snd (resolve_ports R t portmap heap) =
     heap @ [dict_update (self_declared t heap) ((heap @ [self_declared t heap]) ! portmap)]"
  by (simp add: resolve_ports_def self_declared_def Map_get_def new_dict_def nth_append Let_def
           split: option.splits sum.splits)

lemma resolve_ports_Inr:
  "\<exists>warnings result. fst (resolve_ports resolve_aliases t portmap heap) = Inr (warnings, result)"
  by (simp add: resolve_ports_def resolve_aliases_def Map_get_def new_dict_def Let_def
           split: option.splits prod.splits)

lemma map_of_kept_int:
  "map_of m name = Some (Port_int n) \<Longrightarrow>
   map_of (filter (\<lambda>(name, port). isinstance_int port)
             (map (\<lambda>(name, port). (name, chase m' fuel port)) m)) name = Some (Port_int n)"
  by (induction m) (auto split: if_splits)

lemma scheduler_int_wins:
  assumes "portmap < length heap" and "distinct (map fst (heap ! portmap))"
    and "map_of (heap ! portmap) name = Some (Port_int n)"
  shows "\<exists>warnings result.
           fst (resolve_ports resolve_aliases mesos_task portmap heap) = Inr (warnings, result)
           \<and> map_of result name = Some (Port_int n)"
  using assms
  by (simp add: fst_resolve_ports resolve_aliases_def map_of_kept_int map_of_dict_update)

text \<open>
  Claim C4. The resolver is given the announcer's port map updated with the
  scheduler's: a name of the scheduler's map has the scheduler's value there, whether
  the announcer declares it or not, and any other name keeps the announcer's value.
  With the alias resolution of the specification, a port number of the scheduler is
  the value of its name in the final result. In particular the announcer's
  \<^verbatim>\<open>{http: "aliased_to_https", https: 443}\<close> with the scheduler's \<^verbatim>\<open>{http: 8080}\<close>
  gives \<^verbatim>\<open>{http: 8080, https: 443}\<close>, with no warning.
\<close>

theorem resolve_ports_scheduler_wins:
  assumes "portmap < length heap" and "distinct (map fst (heap ! portmap))"
  shows "fst (resolve_ports PortResolver_resolve mesos_task portmap heap) =
           (case PortResolver_resolve
                   (dict_update (self_declared mesos_task heap) (heap ! portmap)) of
              Inl e \<Rightarrow> Inl e
            | Inr m \<Rightarrow> Inr (log_unmapped m, filter (\<lambda>(name, port). isinstance_int port) m))
         \<and> (\<forall>name v. map_of (heap ! portmap) name = Some v \<longrightarrow>
               map_of (dict_update (self_declared mesos_task heap) (heap ! portmap)) name
                 = Some v)
         \<and> (\<forall>name. map_of (heap ! portmap) name = None \<longrightarrow>
               map_of (dict_update (self_declared mesos_task heap) (heap ! portmap)) name
                 = map_of (self_declared mesos_task heap) name)
         \<and> (\<forall>name n. map_of (heap ! portmap) name = Some (Port_int n) \<longrightarrow>
               (\<exists>warnings result.
                  fst (resolve_ports resolve_aliases mesos_task portmap heap)
                    = Inr (warnings, result)
                  \<and> map_of result name = Some (Port_int n)))
         \<and> fst (resolve_ports resolve_aliases example_task 1 example_heap)
             = Inr ([], [(''http'', Port_int 8080), (''https'', Port_int 443)])"
proof -
  have "fst (resolve_ports resolve_aliases example_task 1 example_heap)
         = Inr ([], [(''http'', Port_int 8080), (''https'', Port_int 443)])"
    by (simp add: resolve_ports_def resolve_aliases_def Map_get_def new_dict_def Let_def
          example_task_def example_heap_def dict_update_def)
  moreover have "\<forall>name n. map_of (heap ! portmap) name = Some (Port_int n) \<longrightarrow>
               (\<exists>warnings result.
                  fst (resolve_ports resolve_aliases mesos_task portmap heap)
                    = Inr (warnings, result)
                  \<and> map_of result name = Some (Port_int n))"
    using scheduler_int_wins [OF assms] by blast
  ultimately show ?thesis
    using assms
    by (simp add: fst_resolve_ports map_of_dict_update map_add_def)
qed

theorem resolve_ports_scheduler_wins_witness:
  "map_of (dict_update (self_declared example_task example_heap) (example_heap ! 1)) ''http''
     = Some (Port_int 8080)
   \<and> map_of (dict_update (self_declared example_task example_heap) (example_heap ! 1)) ''https''
     = Some (Port_int 443)"
proof -
  have "1 < length example_heap" and "distinct (map fst (example_heap ! 1))"
    and "map_of (example_heap ! 1) ''http'' = Some (Port_int 8080)"
    and "map_of (example_heap ! 1) ''https'' = None"
    and "map_of (self_declared example_task example_heap) ''https'' = Some (Port_int 443)"
    by (simp_all add: example_heap_def example_task_def self_declared_def)
  then show ?thesis
    using resolve_ports_scheduler_wins [of 1 example_heap resolve_aliases example_task]
    by simp
qed

text \<open>
  Claim C5, as amended. Of the entries the resolver returns, \<^verbatim>\<open>resolve_ports\<close> keeps
  exactly those whose value is an integer, whatever its sign, and drops exactly those
  whose value is a string; the warnings logged are the dropped entries, one for each.
  The claim as stated asks for a non-negative integer, but the source tests
  \<^verbatim>\<open>isinstance(port, int)\<close> only.
\<close>

theorem resolve_ports_keeps_exactly_ints:
  assumes "portmap < length heap"
    and "PortResolver_resolve (dict_update (self_declared mesos_task heap) (heap ! portmap))
           = Inr resolved"
  shows "\<exists>warnings result.
           fst (resolve_ports PortResolver_resolve mesos_task portmap heap)
             = Inr (warnings, result)
           \<and> result = filter (\<lambda>(name, port). isinstance_int port) resolved
           \<and> warnings = filter (\<lambda>(name, port). \<not> isinstance_int port) resolved
           \<and> (\<forall>name port. (name, port) \<in> set result
                 \<longleftrightarrow> (name, port) \<in> set resolved \<and> (\<exists>n. port = Port_int n))
           \<and> (\<forall>name port. (name, port) \<in> set warnings
                 \<longleftrightarrow> (name, port) \<in> set resolved \<and> (\<exists>s. port = Port_str s))
           \<and> length warnings + length result = length resolved"
proof -
  let ?result = "filter (\<lambda>(name, port). isinstance_int port) resolved"
  let ?warnings = "filter (\<lambda>(name, port). \<not> isinstance_int port) resolved"
  have int: "isinstance_int port \<longleftrightarrow> (\<exists>n. port = Port_int n)" for port
    by (cases port) simp_all
  have str: "\<not> isinstance_int port \<longleftrightarrow> (\<exists>s. port = Port_str s)" for port
    by (cases port) simp_all
  have "fst (resolve_ports PortResolver_resolve mesos_task portmap heap)
          = Inr (?warnings, ?result)"
    using assms by (simp add: fst_resolve_ports log_unmapped_filter)
  moreover have "(name, port) \<in> set ?result
      \<longleftrightarrow> (name, port) \<in> set resolved \<and> (\<exists>n. port = Port_int n)" for name port
    using int [of port] by auto
  moreover have "(name, port) \<in> set ?warnings
      \<longleftrightarrow> (name, port) \<in> set resolved \<and> (\<exists>s. port = Port_str s)" for name port
    using str [of port] by auto
  moreover have "length ?warnings + length ?result = length resolved"
    using sum_length_filter_compl [of "\<lambda>(name, port). isinstance_int port" resolved]
    by (simp add: case_prod_unfold)
  ultimately show ?thesis
    by blast
qed

text \<open>
  The specification's second example: the announcer's \<^verbatim>\<open>{http: "nope"}\<close> with an empty
  allocation gives the empty result and one warning.
\<close>

theorem resolve_ports_keeps_exactly_ints_witness:
  "fst (resolve_ports resolve_aliases \<lparr>announce = Some \<lparr>announcer_portmap = 0\<rparr>\<rparr> 1
          [[(''http'', Port_str ''nope'')], []])
   = Inr ([(''http'', Port_str ''nope'')], [])"
proof -
  have "(1::nat) < length [[(''http'', Port_str ''nope'')], []]"
    and "resolve_aliases (dict_update
           (self_declared \<lparr>announce = Some \<lparr>announcer_portmap = 0\<rparr>\<rparr>
              [[(''http'', Port_str ''nope'')], []])
           ([[(''http'', Port_str ''nope'')], []] ! 1))
         = Inr [(''http'', Port_str ''nope'')]"
    by (simp_all add: resolve_aliases_def dict_update_def self_declared_def)
  then show ?thesis
    using resolve_ports_keeps_exactly_ints [of 1 "[[(''http'', Port_str ''nope'')], []]"
        resolve_aliases "\<lparr>announce = Some \<lparr>announcer_portmap = 0\<rparr>\<rparr>"
        "[(''http'', Port_str ''nope'')]"]
    by auto
qed

text \<open>
  Against claim C5 as stated: with no announcer and the allocation \<^verbatim>\<open>{http: -1}\<close>, the
  entry is kept, and its value is not a non-negative integer.
\<close>

theorem resolve_ports_keeps_negative_int:
  "fst (resolve_ports resolve_aliases \<lparr>announce = None\<rparr> 0 [[(''http'', Port_int (- 1))]])
     = Inr ([], [(''http'', Port_int (- 1))])
   \<and> \<not> concrete_non_negative_integer (Port_int (- 1))"
  by (simp add: resolve_ports_def resolve_aliases_def new_dict_def dict_update_def Let_def)

text \<open>
  Claim C6. With the alias resolution of the specification, \<^verbatim>\<open>resolve_ports\<close> returns
  a mapping for every task, scheduler port map and store. The function raises nothing
  of its own: for any port resolver, it raises exactly when the resolver does. A task
  with nothing declared and an empty allocation give the empty mapping and no warning.
\<close>

theorem resolve_ports_never_fails:
  "(\<exists>warnings result.
      fst (resolve_ports resolve_aliases mesos_task portmap heap) = Inr (warnings, result))
   \<and> (portmap < length heap \<longrightarrow>
        ((\<exists>e. fst (resolve_ports PortResolver_resolve mesos_task portmap heap) = Inl e)
          \<longleftrightarrow> (\<exists>e. PortResolver_resolve
                      (dict_update (self_declared mesos_task heap) (heap ! portmap)) = Inl e)))
   \<and> (portmap < length heap \<and> self_declared mesos_task heap = [] \<and> heap ! portmap = [] \<longrightarrow>
        fst (resolve_ports resolve_aliases mesos_task portmap heap) = Inr ([], []))"
  using resolve_ports_Inr [of mesos_task portmap heap]
  by (auto simp: fst_resolve_ports resolve_aliases_def dict_update_def split: sum.splits)

theorem resolve_ports_never_fails_witness:
  "fst (resolve_ports resolve_aliases \<lparr>announce = None\<rparr> 0 [[]]) = Inr ([], [])"
  using resolve_ports_never_fails [of "\<lparr>announce = None\<rparr>" 0 "[[]]"]
  by (simp add: self_declared_def)

text \<open>
  Claim C10. \<^verbatim>\<open>resolve_ports\<close> changes no dict that was in the store when it was
  called: the store it leaves is the one it was given, with one new dict at the end,
  the copy that \<^verbatim>\<open>update\<close> works on. So the scheduler's port map is unchanged, and
  so is the announcer's, also when the two are the same object.
\<close>

theorem resolve_ports_leaves_store:
  "(\<forall>a < length heap. snd (resolve_ports PortResolver_resolve mesos_task portmap heap) ! a
       = heap ! a)
   \<and> length (snd (resolve_ports PortResolver_resolve mesos_task portmap heap))
       = Suc (length heap)
   \<and> (portmap < length heap \<longrightarrow>
        snd (resolve_ports PortResolver_resolve mesos_task portmap heap) ! portmap
          = heap ! portmap)
   \<and> (\<forall>a. announce mesos_task = Some a \<and> announcer_portmap a < length heap \<longrightarrow>
        self_declared mesos_task (snd (resolve_ports PortResolver_resolve mesos_task portmap heap))
          = self_declared mesos_task heap)"
  by (simp add: snd_resolve_ports nth_append self_declared_def)

theorem resolve_ports_leaves_store_witness:
  "snd (resolve_ports resolve_aliases example_task 1 example_heap) ! 0 = example_heap ! 0
   \<and> snd (resolve_ports resolve_aliases example_task 1 example_heap) ! 1 = example_heap ! 1
   \<and> snd (resolve_ports resolve_aliases example_task 0 example_heap) ! 0 = example_heap ! 0"
proof -
  have "(0::nat) < length example_heap" and "(1::nat) < length example_heap"
    by (simp_all add: example_heap_def)
  then show ?thesis
    using resolve_ports_leaves_store [of example_heap resolve_aliases example_task 1]
      resolve_ports_leaves_store [of example_heap resolve_aliases example_task 0]
    by simp
qed

end
